theory Spec2Isabelle
  imports Main
begin

section \<open>The blog listing page (src/src/pages/BlogPage.tsx)\<close>

text \<open>
  The page is a React function component with five state cells and one effect, and a
  class component \<open>ErrorBoundary\<close> that wraps the populated part of its output. The
  embedding keeps the component's state cells as a record, every call of a state setter
  as a value of a datatype (so that what a piece of code writes can be read off the list
  of its setter calls), the data source \<open>getPosts\<close> and the presentational components
  \<open>BlogCard\<close> and \<open>Pagination\<close> as parameters, and the render function as a function
  from the state to a small tree of views.
\<close>

subsection \<open>State cells of \<open>BlogPage\<close> (lines 40-44)\<close>

definition POSTS_PER_PAGE :: int where
  "POSTS_PER_PAGE = 9"

text \<open>
  \<open>NotionPost\<close> is declared in a module outside the sources; the page never looks inside
  a post, so the type of posts is a parameter \<open>'p\<close>. Numbers are integers, as the data
  source contract has them.
\<close>

record 'p page_state =
  posts :: "'p list"
  currentPage :: int
  totalPages :: int
  isLoading :: bool
  error :: "string option"

definition BlogPage_init :: "'p page_state" where
  "BlogPage_init =
     \<lparr>posts = [], currentPage = 1, totalPages = 0, isLoading = True, error = None\<rparr>"

text \<open>One constructor for each state setter returned by \<open>useState\<close>.\<close>

datatype 'p setter =
    SetPosts "'p list"
  | SetCurrentPage int
  | SetTotalPages int
  | SetIsLoading bool
  | SetError "string option"

fun apply_setter :: "'p page_state \<Rightarrow> 'p setter \<Rightarrow> 'p page_state" where
  "apply_setter s (SetPosts ps) = s\<lparr>posts := ps\<rparr>"
| "apply_setter s (SetCurrentPage p) = s\<lparr>currentPage := p\<rparr>"
| "apply_setter s (SetTotalPages t) = s\<lparr>totalPages := t\<rparr>"
| "apply_setter s (SetIsLoading b) = s\<lparr>isLoading := b\<rparr>"
| "apply_setter s (SetError e) = s\<lparr>error := e\<rparr>"

definition run_setters :: "'p page_state \<Rightarrow> 'p setter list \<Rightarrow> 'p page_state" where
  "run_setters s ws = foldl apply_setter s ws"

text \<open>The state cell a setter call writes.\<close>

datatype cell = PostsCell | CurrentPageCell | TotalPagesCell | IsLoadingCell | ErrorCell

fun written_cell :: "'p setter \<Rightarrow> cell" where
  "written_cell (SetPosts ps) = PostsCell"
| "written_cell (SetCurrentPage p) = CurrentPageCell"
| "written_cell (SetTotalPages t) = TotalPagesCell"
| "written_cell (SetIsLoading b) = IsLoadingCell"
| "written_cell (SetError e) = ErrorCell"

definition writes_cell :: "cell \<Rightarrow> 'p setter list \<Rightarrow> bool" where
  "writes_cell c ws = (c \<in> set (map written_cell ws))"

subsection \<open>The status shown, derived from the cells (lines 86, 90)\<close>

text \<open>
  The render function tests \<open>isLoading\<close> first and then the truthiness of \<open>error\<close>: in
  JavaScript \<open>null\<close> and the empty string are both falsy.
\<close>

datatype status = Loading | Error | Ready

fun truthy :: "string option \<Rightarrow> bool" where
  "truthy None = False"
| "truthy (Some e) = (e \<noteq> [])"

definition status :: "'p page_state \<Rightarrow> status" where
  "status s = (if isLoading s then Loading else if truthy (error s) then Error else Ready)"

subsection \<open>\<open>fetchPosts\<close> (lines 47-63)\<close>

text \<open>
  \<open>getPosts\<close> is imported from a module outside the sources. Its promise either resolves
  with an object \<open>{posts, totalPages}\<close> or rejects with a fault of any kind \<open>'f\<close>.
\<close>

datatype ('p, 'f) outcome = Resolved "'p list" int | Rejected 'f

definition fetch_error_message :: string where
  "fetch_error_message = ''Failed to load blog posts. Please try again later.''"

text \<open>
  The part of \<open>fetchPosts\<close> that runs synchronously, up to the \<open>await\<close>: lines 48-50, and
  the request of line 53.
\<close>

definition fetchPosts_reset :: "'p setter list" where
  "fetchPosts_reset = [SetIsLoading True, SetPosts [], SetError None]"

definition fetchPosts_request :: "'p page_state \<Rightarrow> int \<times> int" where
  "fetchPosts_request s = (currentPage s, POSTS_PER_PAGE)"

text \<open>
  The continuation after the \<open>await\<close>: lines 55-56 when the promise resolved, line 59 in
  the \<open>catch\<close> block when it rejected, and line 61 in the \<open>finally\<close> block in both cases.
\<close>

fun fetchPosts_settle :: "('p, 'f) outcome \<Rightarrow> 'p setter list" where
  "fetchPosts_settle (Resolved newPosts tot) =
     [SetPosts newPosts, SetTotalPages tot] @ [SetIsLoading False]"
| "fetchPosts_settle (Rejected err) =
     [SetError (Some fetch_error_message)] @ [SetIsLoading False]"

text \<open>
  A fetch cycle is one run of \<open>fetchPosts\<close> from the state reset to the settled state,
  with no write of another run in between.
\<close>

definition fetchPosts_writes :: "('p, 'f) outcome \<Rightarrow> 'p setter list" where
  "fetchPosts_writes r = fetchPosts_reset @ fetchPosts_settle r"

definition fetchPosts :: "'p page_state \<Rightarrow> ('p, 'f) outcome \<Rightarrow> 'p page_state" where
  "fetchPosts s r = run_setters s (fetchPosts_writes r)"

subsection \<open>\<open>ErrorBoundary\<close> (lines 12-37)\<close>

record fault_state =
  hasError :: bool

definition ErrorBoundary_init :: fault_state where
  "ErrorBoundary_init = \<lparr>hasError = False\<rparr>"

text \<open>The static method ignores the fault it is given.\<close>

definition getDerivedStateFromError :: "'e \<Rightarrow> fault_state" where
  "getDerivedStateFromError err = \<lparr>hasError = True\<rparr>"

text \<open>
  What the page can put on the screen below its heading: the spinner, a panel made of a
  heading and a paragraph (the fetch error panel of lines 91-97, the fallback of the
  boundary of lines 26-32), or the children of the boundary. A child is the card of one
  post, the notice of lines 115-120, or the pager with the two numbers it is given.
\<close>

datatype 'p node = Card 'p | EmptyNotice | PagerCtl int int

datatype 'p view =
    Loader
  | ErrorPanel string string
  | FallbackPanel string string
  | Content "'p node list"

definition fallback_heading :: string where
  "fallback_heading = ''Something went wrong''"

definition fallback_paragraph :: string where
  "fallback_paragraph =
     ''An error occurred while rendering the blog posts. Please try again later.''"

definition ErrorBoundary_render :: "fault_state \<Rightarrow> 'p node list \<Rightarrow> 'p view" where
  "ErrorBoundary_render b children =
     (if hasError b then FallbackPanel fallback_heading fallback_paragraph
      else Content children)"

text \<open>
  \<open>BlogCard\<close> and \<open>Pagination\<close> are imported components; each may throw while it
  renders. Rendering is a function of the props, so whether a component throws is a
  function of its props.
\<close>

record 'p collaborators =
  BlogCard_throws :: "'p \<Rightarrow> bool"
  Pagination_throws :: "int \<Rightarrow> int \<Rightarrow> bool"

fun node_throws :: "'p collaborators \<Rightarrow> 'p node \<Rightarrow> bool" where
  "node_throws C (Card p) = BlogCard_throws C p"
| "node_throws C EmptyNotice = False"
| "node_throws C (PagerCtl cur tot) = Pagination_throws C cur tot"

text \<open>
  One render pass over a mounted boundary, as React runs it: a boundary that has the
  flag set returns its fallback without rendering its children; otherwise the children
  are rendered, and when one of them throws React calls \<open>getDerivedStateFromError\<close> on
  the nearest boundary above it, stores the result as the boundary's state and renders
  the boundary again. \<open>componentDidCatch\<close> only logs.
\<close>

definition render_boundary ::
  "'p collaborators \<Rightarrow> fault_state \<Rightarrow> 'p node list \<Rightarrow> fault_state \<times> 'p view" where
  "render_boundary C b children =
     (if hasError b then (b, ErrorBoundary_render b children)
      else if list_ex (node_throws C) children
      then (getDerivedStateFromError (), ErrorBoundary_render (getDerivedStateFromError ()) children)
      else (b, ErrorBoundary_render b children))"

subsection \<open>The render function of \<open>BlogPage\<close> (lines 86-137)\<close>

text \<open>The children handed to the boundary: lines 100-121 and 123-135.\<close>

definition boundary_children :: "'p page_state \<Rightarrow> 'p node list" where
  "boundary_children s =
     (if length (posts s) > 0 then map Card (posts s) else [EmptyNotice])
     @ (if totalPages s > 1 then [PagerCtl (currentPage s) (totalPages s)] else [])"

definition error_paragraph :: string where
  "error_paragraph = ''Please check your internet connection and try again later.''"

text \<open>
  The boundary is an element of the third branch only. The second argument is the state
  of the boundary instance mounted by the previous render, if there was one: React keeps
  the instance while the third branch is rendered again and discards it when another
  branch is rendered. The result is the instance mounted afterwards and the view.
\<close>

definition BlogPage_render ::
  "'p collaborators \<Rightarrow> 'p page_state \<Rightarrow> fault_state option \<Rightarrow> fault_state option \<times> 'p view" where
  "BlogPage_render C s mounted =
     (if isLoading s then (None, Loader)
      else if truthy (error s)
      then (None, ErrorPanel (case error s of Some e \<Rightarrow> e | None \<Rightarrow> []) error_paragraph)
      else (case render_boundary C
                   (case mounted of None \<Rightarrow> ErrorBoundary_init | Some b \<Rightarrow> b)
                   (boundary_children s) of
              (b', v) \<Rightarrow> (Some b', v)))"

text \<open>What a view has on the screen of the boundary's children.\<close>

fun rendered_nodes :: "'p view \<Rightarrow> 'p node list" where
  "rendered_nodes (Content ns) = ns"
| "rendered_nodes Loader = []"
| "rendered_nodes (ErrorPanel h t) = []"
| "rendered_nodes (FallbackPanel h t) = []"

fun is_pager :: "'p node \<Rightarrow> bool" where
  "is_pager (PagerCtl cur tot) = True"
| "is_pager (Card p) = False"
| "is_pager EmptyNotice = False"

definition pager_rendered :: "'p view \<Rightarrow> bool" where
  "pager_rendered v = list_ex is_pager (rendered_nodes v)"

subsection \<open>The mounted page and its events\<close>

text \<open>
  The mounted page: the state cells, the boundary instance (if one is mounted), the
  requests issued and not yet settled, and the view of the last render.
\<close>

record 'p page =
  cells :: "'p page_state"
  boundary :: "fault_state option"
  pending :: "(int \<times> int) list"
  shown :: "'p view"

definition commit ::
  "'p collaborators \<Rightarrow> 'p page_state \<Rightarrow> fault_state option \<Rightarrow> (int \<times> int) list \<Rightarrow> 'p page" where
  "commit C s mounted reqs =
     (case BlogPage_render C s mounted of
        (mounted', v) \<Rightarrow> \<lparr>cells = s, boundary = mounted', pending = reqs, shown = v\<rparr>)"

text \<open>
  The effect of lines 46-66 runs after the first render and after every render in which
  \<open>currentPage\<close> differs from its value at the previous render. It calls \<open>fetchPosts\<close>,
  which runs its synchronous part and issues the request.
\<close>

definition run_effect ::
  "'p collaborators \<Rightarrow> 'p page_state \<Rightarrow> fault_state option \<Rightarrow> (int \<times> int) list \<Rightarrow> 'p page" where
  "run_effect C s mounted reqs =
     commit C (run_setters s fetchPosts_reset) mounted (reqs @ [fetchPosts_request s])"

definition mount :: "'p collaborators \<Rightarrow> 'p page" where
  "mount C = run_effect C BlogPage_init None []"

text \<open>
  Two things happen to a mounted page. The pager calls \<open>onPageChange\<close>, which is
  \<open>setCurrentPage\<close>: a call with the current value changes nothing and renders nothing,
  any other value is stored, the page is rendered with it and the effect runs before
  anything else happens. Or one of the pending requests settles,
  and the continuation of its \<open>fetchPosts\<close> runs; its setter calls are applied together
  and rendered once. Requests may settle in any order, so the event names the position
  of the request in the pending list.
\<close>

datatype ('p, 'f) event = PageChange int | Settle nat "('p, 'f) outcome"

definition remove_nth :: "nat \<Rightarrow> 'a list \<Rightarrow> 'a list" where
  "remove_nth k xs = take k xs @ drop (Suc k) xs"

fun step :: "'p collaborators \<Rightarrow> 'p page \<Rightarrow> ('p, 'f) event \<Rightarrow> 'p page" where
  "step C pg (PageChange p) =
     (if p = currentPage (cells pg) then pg
      else run_effect C (apply_setter (cells pg) (SetCurrentPage p)) (boundary pg) (pending pg))"
| "step C pg (Settle k r) =
     (if k < length (pending pg)
      then commit C (run_setters (cells pg) (fetchPosts_settle r)) (boundary pg)
             (remove_nth k (pending pg))
      else pg)"

definition exec :: "'p collaborators \<Rightarrow> ('p, 'f) event list \<Rightarrow> 'p page" where
  "exec C evs = foldl (step C) (mount C) evs"

fun is_success :: "('p, 'f) event \<Rightarrow> bool" where
  "is_success (Settle k (Resolved ps tot)) = True"
| "is_success (Settle k (Rejected f)) = False"
| "is_success (PageChange p) = False"

fun is_failure :: "('p, 'f) event \<Rightarrow> bool" where
  "is_failure (Settle k (Rejected f)) = True"
| "is_failure (Settle k (Resolved ps tot)) = False"
| "is_failure (PageChange p) = False"

text \<open>The page counts delivered by the successful settlements of a run.\<close>

fun delivered_totals :: "('p, 'f) event list \<Rightarrow> int list" where
  "delivered_totals [] = []"
| "delivered_totals (Settle k (Resolved ps tot) # evs) = tot # delivered_totals evs"
| "delivered_totals (Settle k (Rejected f) # evs) = delivered_totals evs"
| "delivered_totals (PageChange p # evs) = delivered_totals evs"

text \<open>
  The state of one boundary instance after a sequence of render passes, each with the
  children of that pass.
\<close>

definition boundary_renders ::
  "'p collaborators \<Rightarrow> fault_state \<Rightarrow> 'p node list list \<Rightarrow> fault_state" where
  "boundary_renders C b passes = foldl (\<lambda>b' children. fst (render_boundary C b' children)) b passes"

definition tripped :: "'p page \<Rightarrow> bool" where
  "tripped pg = (case boundary pg of None \<Rightarrow> False | Some b \<Rightarrow> hasError b)"

text \<open>
  Sample collaborators for the concrete runs below: posts are numbers, the card of post
  \<open>1\<close> throws, nothing else does.
\<close>

abbreviation card_1_throws :: "nat collaborators" where
  "card_1_throws \<equiv> \<lparr>BlogCard_throws = (\<lambda>p. p = 1), Pagination_throws = (\<lambda>cur tot. False)\<rparr>"

abbreviation nothing_throws :: "nat collaborators" where
  "nothing_throws \<equiv> \<lparr>BlogCard_throws = (\<lambda>p. False), Pagination_throws = (\<lambda>cur tot. False)\<rparr>"

section \<open>Properties of a fetch cycle\<close>

lemma run_reset:
  "run_setters s fetchPosts_reset = s\<lparr>isLoading := True, posts := [], error := None\<rparr>"
  by (simp add: run_setters_def fetchPosts_reset_def)

lemma fetchPosts_Resolved:
  "fetchPosts s (Resolved newPosts tot) =
     s\<lparr>posts := newPosts, totalPages := tot, isLoading := False, error := None\<rparr>"
  by (simp add: fetchPosts_def fetchPosts_writes_def fetchPosts_reset_def run_setters_def)

lemma fetchPosts_Rejected:
  "fetchPosts s (Rejected f) =
     s\<lparr>posts := [], isLoading := False, error := Some fetch_error_message\<rparr>"
  by (simp add: fetchPosts_def fetchPosts_writes_def fetchPosts_reset_def run_setters_def)

text \<open>
  C9. Running the cycle for the same page a second time, after the first has settled and
  with the same outcome, changes nothing: the cells after the second cycle (items,
  \<open>totalPages\<close>, status, message) are those after the first. A cycle does not write
  \<open>currentPage\<close>, so the second request is the first one again.
\<close>

theorem fetchPosts_idempotent:
  "fetchPosts (fetchPosts s r) r = fetchPosts s r
   \<and> posts (fetchPosts (fetchPosts s r) r) = posts (fetchPosts s r)
   \<and> totalPages (fetchPosts (fetchPosts s r) r) = totalPages (fetchPosts s r)
   \<and> status (fetchPosts (fetchPosts s r) r) = status (fetchPosts s r)
   \<and> error (fetchPosts (fetchPosts s r) r) = error (fetchPosts s r)
   \<and> fetchPosts_request (fetchPosts s r) = fetchPosts_request s"
  by (cases r) (simp_all add: fetchPosts_Resolved fetchPosts_Rejected fetchPosts_request_def)

text \<open>
  C10. A fetch cycle that settles in failure leaves \<open>totalPages\<close> and \<open>currentPage\<close> as
  they were before it started. Its setter calls are the reset of the loading flag, the
  items (to the empty list) and the message, then the message and the loading flag: no
  call writes \<open>totalPages\<close> or \<open>currentPage\<close>.
\<close>

theorem fetchPosts_failure_frame:
  "totalPages (fetchPosts s (Rejected f)) = totalPages s
   \<and> currentPage (fetchPosts s (Rejected f)) = currentPage s
   \<and> fetchPosts_writes (Rejected f) =
       [SetIsLoading True, SetPosts [], SetError None,
        SetError (Some fetch_error_message), SetIsLoading False]
   \<and> map written_cell (fetchPosts_writes (Rejected f) :: 'p setter list) =
       [IsLoadingCell, PostsCell, ErrorCell, ErrorCell, IsLoadingCell]
   \<and> \<not> writes_cell TotalPagesCell (fetchPosts_writes (Rejected f) :: 'p setter list)
   \<and> \<not> writes_cell CurrentPageCell (fetchPosts_writes (Rejected f) :: 'p setter list)"
  by (simp add: fetchPosts_Rejected fetchPosts_writes_def fetchPosts_reset_def writes_cell_def)

section \<open>What is rendered\<close>

lemma render_Loading:
  "isLoading s \<Longrightarrow> BlogPage_render C s m = (None, Loader)"
  by (simp add: BlogPage_render_def)

lemma render_Error:
  "status s = Error \<Longrightarrow>
   BlogPage_render C s m =
     (None, ErrorPanel (case error s of Some e \<Rightarrow> e | None \<Rightarrow> []) error_paragraph)"
  by (simp add: BlogPage_render_def status_def split: if_splits)

lemma render_Ready:
  "status s = Ready \<Longrightarrow>
   BlogPage_render C s m =
     (Some (fst (render_boundary C (case m of None \<Rightarrow> ErrorBoundary_init | Some b \<Rightarrow> b)
               (boundary_children s))),
      snd (render_boundary C (case m of None \<Rightarrow> ErrorBoundary_init | Some b \<Rightarrow> b)
               (boundary_children s)))"
  by (simp add: BlogPage_render_def status_def split: if_splits prod.splits)

lemma render_boundary_tripped:
  "hasError b \<Longrightarrow>
   render_boundary C b children = (b, FallbackPanel fallback_heading fallback_paragraph)"
  by (simp add: render_boundary_def ErrorBoundary_render_def)

lemma render_boundary_throws:
  "list_ex (node_throws C) children \<Longrightarrow>
   render_boundary C b children =
     (\<lparr>hasError = True\<rparr>, FallbackPanel fallback_heading fallback_paragraph)"
  by (cases b) (simp add: render_boundary_def ErrorBoundary_render_def getDerivedStateFromError_def)

lemma boundary_renders_tripped:
  "hasError b \<Longrightarrow> boundary_renders C b passes = b"
  by (induction passes arbitrary: b) (simp_all add: boundary_renders_def render_boundary_tripped)

section \<open>The mounted page\<close>

lemma cells_commit: "cells (commit C s m reqs) = s"
  by (cases "BlogPage_render C s m") (simp add: commit_def)

lemma commit_Loading:
  "isLoading s \<Longrightarrow>
   commit C s m reqs = \<lparr>cells = s, boundary = None, pending = reqs, shown = Loader\<rparr>"
  by (simp add: commit_def render_Loading)

lemma run_effect_eq:
  "run_effect C s m reqs =
     \<lparr>cells = s\<lparr>isLoading := True, posts := [], error := None\<rparr>, boundary = None,
      pending = reqs @ [(currentPage s, POSTS_PER_PAGE)], shown = Loader\<rparr>"
  by (simp add: run_effect_def run_reset commit_Loading fetchPosts_request_def)

lemma exec_snoc: "exec C (evs @ [e]) = step C (exec C evs) e"
  by (simp add: exec_def)

text \<open>
  A page change followed by the settlement of the request it issued is a fetch cycle on
  the cells; so is the mount followed by the settlement of its request.
\<close>

lemma page_change_then_settle:
  assumes "p \<noteq> currentPage (cells pg)"
  shows "cells (step C (step C pg (PageChange p)) (Settle (length (pending pg)) r)) =
           fetchPosts ((cells pg)\<lparr>currentPage := p\<rparr>) r"
  using assms
  by (simp add: run_effect_eq cells_commit fetchPosts_def fetchPosts_writes_def run_setters_def
      fetchPosts_reset_def)

lemma mount_then_settle:
  "cells (exec C [Settle 0 r]) = fetchPosts BlogPage_init r"
  by (simp add: exec_def mount_def run_effect_eq cells_commit fetchPosts_def fetchPosts_writes_def
      run_setters_def fetchPosts_reset_def)

lemma run_snoc: "foldl (step C) pg (evs @ [e]) = step C (foldl (step C) pg evs) e"
  by simp

lemma run_Cons_snoc:
  "foldl (step C) pg (e # evs @ [e']) = step C (foldl (step C) pg (e # evs)) e'"
  using run_snoc [of C pg "e # evs" e'] by (simp only: append_Cons)

text \<open>
  What the settlement of a pending request does to the cells and to the view, whatever
  the page was doing: the continuation of a rejected request writes the message and the
  loading flag, that of a resolved request the items, the page count and the loading
  flag.
\<close>

lemma cells_step_Rejected:
  "k < length (pending pg) \<Longrightarrow>
   cells (step C pg (Settle k (Rejected f))) =
     (cells pg)\<lparr>error := Some fetch_error_message, isLoading := False\<rparr>"
  by (simp add: cells_commit run_setters_def)

lemma shown_step_Rejected:
  "k < length (pending pg) \<Longrightarrow>
   shown (step C pg (Settle k (Rejected f))) = ErrorPanel fetch_error_message error_paragraph"
  by (simp add: run_setters_def commit_def BlogPage_render_def fetch_error_message_def)

lemma cells_step_Resolved:
  "k < length (pending pg) \<Longrightarrow>
   cells (step C pg (Settle k (Resolved ps t))) =
     (cells pg)\<lparr>posts := ps, totalPages := t, isLoading := False\<rparr>"
  by (simp add: cells_commit run_setters_def)




text \<open>
  The reset of the mount and of a page change empties the items and clears the message.
  Afterwards only a successful settlement stores items, and only a failing one stores a
  message.
\<close>

lemma posts_step_other:
  "\<not> is_success e \<Longrightarrow> posts (cells pg) = [] \<Longrightarrow> posts (cells (step C pg e)) = []"
  by (cases e rule: is_success.cases)
     (simp_all add: run_effect_eq cells_commit run_setters_def)

lemma posts_run_other:
  "\<not> list_ex is_success evs \<Longrightarrow> posts (cells pg) = [] \<Longrightarrow>
   posts (cells (foldl (step C) pg evs)) = []"
  by (induction evs arbitrary: pg) (simp_all add: posts_step_other)

lemma error_step_other:
  "\<not> is_failure e \<Longrightarrow> error (cells pg) = None \<Longrightarrow> error (cells (step C pg e)) = None"
  by (cases e rule: is_failure.cases)
     (simp_all add: run_effect_eq cells_commit run_setters_def)

lemma error_run_other:
  "\<not> list_ex is_failure evs \<Longrightarrow> error (cells pg) = None \<Longrightarrow>
   error (cells (foldl (step C) pg evs)) = None"
  by (induction evs arbitrary: pg) (simp_all add: error_step_other)

lemma reset_by_mount: "posts (cells (mount C)) = [] \<and> error (cells (mount C)) = None"
  by (simp add: mount_def run_effect_eq)

lemma reset_by_page_change:
  "p \<noteq> currentPage (cells pg) \<Longrightarrow>
   posts (cells (step C pg (PageChange p))) = [] \<and> error (cells (step C pg (PageChange p))) = None"
  by (simp add: run_effect_eq)

lemma posts_since_reset:
  "\<not> list_ex is_success evs \<Longrightarrow> posts (cells (exec C evs)) = []"
  "p \<noteq> currentPage (cells pg) \<Longrightarrow> \<not> list_ex is_success evs \<Longrightarrow>
   posts (cells (foldl (step C) pg (PageChange p # evs))) = []"
proof -
  show "posts (cells (exec C evs)) = []" if "\<not> list_ex is_success evs"
    unfolding exec_def using that reset_by_mount [of C] by (blast intro: posts_run_other)
  show "posts (cells (foldl (step C) pg (PageChange p # evs))) = []"
    if "p \<noteq> currentPage (cells pg)" "\<not> list_ex is_success evs"
    unfolding foldl_Cons using that(2) reset_by_page_change [OF that(1), of C]
    by (blast intro: posts_run_other)
qed

lemma error_since_reset:
  "\<not> list_ex is_failure evs \<Longrightarrow> error (cells (exec C evs)) = None"
  "p \<noteq> currentPage (cells pg) \<Longrightarrow> \<not> list_ex is_failure evs \<Longrightarrow>
   error (cells (foldl (step C) pg (PageChange p # evs))) = None"
proof -
  show "error (cells (exec C evs)) = None" if "\<not> list_ex is_failure evs"
    unfolding exec_def using that reset_by_mount [of C] by (blast intro: error_run_other)
  show "error (cells (foldl (step C) pg (PageChange p # evs))) = None"
    if "p \<noteq> currentPage (cells pg)" "\<not> list_ex is_failure evs"
    unfolding foldl_Cons using that(2) reset_by_page_change [OF that(1), of C]
    by (blast intro: error_run_other)
qed

text \<open>
  C4, as amended. Whatever fault the data source raised and whatever else the page was
  doing, the settlement of a pending request in failure leaves the status \<open>Error\<close> and
  the one fixed message, renders the error panel, and does not write the items. The
  items are empty when no request has settled successfully since the last reset (the
  mount or a page change): in every run from the mount, and in every run after a page
  change, that has no successful settlement before the failing one; in particular in a
  fetch cycle that nothing interrupts.
\<close>

theorem failing_resolution_on_page:
  "(k < length (pending pg) \<longrightarrow>
      status (cells (step C pg (Settle k (Rejected f)))) = Error
    \<and> error (cells (step C pg (Settle k (Rejected f)))) = Some fetch_error_message
    \<and> shown (step C pg (Settle k (Rejected f))) = ErrorPanel fetch_error_message error_paragraph
    \<and> posts (cells (step C pg (Settle k (Rejected f)))) = posts (cells pg))
   \<and> (\<not> list_ex is_success evs \<and> j < length (pending (exec C evs)) \<longrightarrow>
        posts (cells (exec C (evs @ [Settle j (Rejected f)]))) = [])
   \<and> (p \<noteq> currentPage (cells pg) \<and> \<not> list_ex is_success evs
      \<and> i < length (pending (foldl (step C) pg (PageChange p # evs))) \<longrightarrow>
        posts (cells (foldl (step C) pg (PageChange p # evs @ [Settle i (Rejected f)]))) = [])
   \<and> posts (fetchPosts s (Rejected f)) = []
   \<and> status (fetchPosts s (Rejected f)) = Error
   \<and> error (fetchPosts s (Rejected f)) = Some fetch_error_message
   \<and> fetch_error_message = ''Failed to load blog posts. Please try again later.''"
proof -
  have a: "status (cells (step C pg (Settle k (Rejected f)))) = Error
    \<and> error (cells (step C pg (Settle k (Rejected f)))) = Some fetch_error_message
    \<and> shown (step C pg (Settle k (Rejected f))) = ErrorPanel fetch_error_message error_paragraph
    \<and> posts (cells (step C pg (Settle k (Rejected f)))) = posts (cells pg)"
    if "k < length (pending pg)"
    unfolding cells_step_Rejected [OF that] shown_step_Rejected [OF that]
    by (simp add: status_def fetch_error_message_def)
  have b: "posts (cells (exec C (evs @ [Settle j (Rejected f)]))) = []"
    if "\<not> list_ex is_success evs" "j < length (pending (exec C evs))"
    unfolding exec_snoc cells_step_Rejected [OF that(2)]
    using posts_since_reset(1) [OF that(1), of C] by simp
  have c: "posts (cells (foldl (step C) pg (PageChange p # evs @ [Settle i (Rejected f)]))) = []"
    if "p \<noteq> currentPage (cells pg)" "\<not> list_ex is_success evs"
       "i < length (pending (foldl (step C) pg (PageChange p # evs)))"
    unfolding run_Cons_snoc cells_step_Rejected [OF that(3)]
    using posts_since_reset(2) [OF that(1) that(2), of C] by simp
  have d: "posts (fetchPosts s (Rejected f)) = []
   \<and> status (fetchPosts s (Rejected f)) = Error
   \<and> error (fetchPosts s (Rejected f)) = Some fetch_error_message
   \<and> fetch_error_message = ''Failed to load blog posts. Please try again later.''"
    by (simp add: fetchPosts_Rejected status_def fetch_error_message_def)
  from a b c d show ?thesis by blast
qed

theorem failing_resolution_on_page_witness:
  "(0::nat) < length (pending (mount nothing_throws))
   \<and> \<not> list_ex is_success [PageChange 3 :: (nat, unit) event]
   \<and> 0 < length (pending (exec nothing_throws [PageChange 3 :: (nat, unit) event]))
   \<and> 2 \<noteq> currentPage (cells (mount nothing_throws))
   \<and> 0 < length (pending (foldl (step nothing_throws) (mount nothing_throws)
           [PageChange 2, PageChange 3 :: (nat, unit) event]))
   \<and> status (cells (step nothing_throws (mount nothing_throws) (Settle 0 (Rejected ())))) = Error
   \<and> posts (cells (exec nothing_throws [PageChange 3, Settle 0 (Rejected ())])) = []
   \<and> posts (cells (foldl (step nothing_throws) (mount nothing_throws)
         [PageChange 2, PageChange 3, Settle 0 (Rejected ())])) = []"
proof -
  have h1: "(0::nat) < length (pending (mount nothing_throws))"
    by (simp add: mount_def run_effect_eq)
  have h2: "\<not> list_ex is_success [PageChange 3 :: (nat, unit) event]"
    by simp
  have h3: "0 < length (pending (exec nothing_throws [PageChange 3 :: (nat, unit) event]))"
    by (simp add: exec_def mount_def run_effect_eq BlogPage_init_def)
  have h4: "2 \<noteq> currentPage (cells (mount nothing_throws))"
    by (simp add: mount_def run_effect_eq BlogPage_init_def)
  have h5: "0 < length (pending (foldl (step nothing_throws) (mount nothing_throws)
           [PageChange 2, PageChange 3 :: (nat, unit) event]))"
    by (simp add: mount_def run_effect_eq BlogPage_init_def)
  from failing_resolution_on_page [where C = nothing_throws and pg = "mount nothing_throws"
      and k = 0 and f = "()" and evs = "[PageChange 3]" and j = 0 and p = 2 and i = 0
      and s = BlogPage_init]
    h1 h2 h3 h4 h5
  show ?thesis unfolding append_Cons append_Nil by blast
qed

text \<open>
  C4, the claim as stated fails when requests overlap. Page \<open>2\<close> is requested while the
  request of the mount is pending; that request resolves with post \<open>5\<close> of three pages,
  then the request for page \<open>2\<close> is rejected. The \<open>catch\<close> block does not write the
  items: the status is \<open>Error\<close> and the items are still post \<open>5\<close>.
\<close>

theorem items_left_by_overlapped_failure_counterexample:
  "posts (cells (exec nothing_throws
      [PageChange 2, Settle 0 (Resolved [5] 3), Settle 0 (Rejected ())])) = [5]
   \<and> posts (cells (exec nothing_throws
      [PageChange 2, Settle 0 (Resolved [5] 3), Settle 0 (Rejected ())])) \<noteq> []
   \<and> status (cells (exec nothing_throws
      [PageChange 2, Settle 0 (Resolved [5] 3), Settle 0 (Rejected ())])) = Error
   \<and> pending (exec nothing_throws [PageChange 2, Settle 0 (Resolved [5] 3) :: (nat, unit) event])
       = [(2, 9)]
   \<and> pending (exec nothing_throws
      [PageChange 2, Settle 0 (Resolved [5] 3), Settle 0 (Rejected ())]) = []"
  by (simp add: exec_def mount_def run_effect_eq commit_def BlogPage_render_def BlogPage_init_def
      run_setters_def status_def render_boundary_def boundary_children_def ErrorBoundary_init_def
      ErrorBoundary_render_def remove_nth_def fetch_error_message_def POSTS_PER_PAGE_def)

lemma status_step_Resolved:
  "k < length (pending pg) \<Longrightarrow>
   status (cells (step C pg (Settle k (Resolved ps t)))) =
     (if truthy (error (cells pg)) then Error else Ready)"
  by (simp add: cells_commit run_setters_def status_def)

text \<open>
  C5, as amended. Whatever else the page was doing, the settlement of a pending request
  with \<open>N\<close> posts and the page count \<open>T\<close> leaves exactly these posts as the items, in the
  order of the response, and \<open>totalPages = T\<close>. It does not write the message: the
  status is \<open>Ready\<close> when the message it finds is empty and \<open>Error\<close> otherwise. The
  message is empty when no request has settled in failure since the last reset (the
  mount or a page change): in every run from the mount, and in every run after a page
  change, that has no failing settlement before the successful one; in particular in a
  fetch cycle that nothing interrupts.
\<close>

theorem successful_resolution_on_page:
  "(k < length (pending pg) \<longrightarrow>
      posts (cells (step C pg (Settle k (Resolved newPosts tot) :: ('p, 'f) event))) = newPosts
    \<and> length (posts (cells (step C pg (Settle k (Resolved newPosts tot) :: ('p, 'f) event))))
        = length newPosts
    \<and> totalPages (cells (step C pg (Settle k (Resolved newPosts tot) :: ('p, 'f) event))) = tot
    \<and> error (cells (step C pg (Settle k (Resolved newPosts tot) :: ('p, 'f) event)))
        = error (cells pg)
    \<and> status (cells (step C pg (Settle k (Resolved newPosts tot) :: ('p, 'f) event))) =
        (if truthy (error (cells pg)) then Error else Ready))
   \<and> (\<not> list_ex is_failure evs \<and> j < length (pending (exec C evs)) \<longrightarrow>
        status (cells (exec C (evs @ [Settle j (Resolved newPosts tot) :: ('p, 'f) event])))
          = Ready)
   \<and> (p \<noteq> currentPage (cells pg) \<and> \<not> list_ex is_failure evs
      \<and> i < length (pending (foldl (step C) pg (PageChange p # evs))) \<longrightarrow>
        status (cells (foldl (step C) pg
          (PageChange p # evs @ [Settle i (Resolved newPosts tot) :: ('p, 'f) event]))) = Ready)
   \<and> posts (fetchPosts s (Resolved newPosts tot :: ('p, 'f) outcome)) = newPosts
   \<and> totalPages (fetchPosts s (Resolved newPosts tot :: ('p, 'f) outcome)) = tot
   \<and> status (fetchPosts s (Resolved newPosts tot :: ('p, 'f) outcome)) = Ready"
proof -
  have a: "posts (cells (step C pg (Settle k (Resolved newPosts tot) :: ('p, 'f) event))) = newPosts
    \<and> length (posts (cells (step C pg (Settle k (Resolved newPosts tot) :: ('p, 'f) event))))
        = length newPosts
    \<and> totalPages (cells (step C pg (Settle k (Resolved newPosts tot) :: ('p, 'f) event))) = tot
    \<and> error (cells (step C pg (Settle k (Resolved newPosts tot) :: ('p, 'f) event)))
        = error (cells pg)
    \<and> status (cells (step C pg (Settle k (Resolved newPosts tot) :: ('p, 'f) event))) =
        (if truthy (error (cells pg)) then Error else Ready)"
    if "k < length (pending pg)"
    unfolding cells_step_Resolved [OF that] by (simp add: status_def)
  have b: "status (cells (exec C (evs @ [Settle j (Resolved newPosts tot) :: ('p, 'f) event])))
          = Ready"
    if "\<not> list_ex is_failure evs" "j < length (pending (exec C evs))"
    unfolding exec_snoc status_step_Resolved [OF that(2)]
    using error_since_reset(1) [OF that(1), of C] by simp
  have c: "status (cells (foldl (step C) pg
          (PageChange p # evs @ [Settle i (Resolved newPosts tot) :: ('p, 'f) event]))) = Ready"
    if "p \<noteq> currentPage (cells pg)" "\<not> list_ex is_failure evs"
       "i < length (pending (foldl (step C) pg (PageChange p # evs)))"
    unfolding run_Cons_snoc status_step_Resolved [OF that(3)]
    using error_since_reset(2) [OF that(1) that(2), of C] by simp
  have d: "posts (fetchPosts s (Resolved newPosts tot :: ('p, 'f) outcome)) = newPosts
   \<and> totalPages (fetchPosts s (Resolved newPosts tot :: ('p, 'f) outcome)) = tot
   \<and> status (fetchPosts s (Resolved newPosts tot :: ('p, 'f) outcome)) = Ready"
    by (simp add: fetchPosts_Resolved status_def)
  from a b c d show ?thesis by blast
qed

theorem successful_resolution_on_page_witness:
  "(0::nat) < length (pending (mount nothing_throws))
   \<and> \<not> list_ex is_failure [PageChange 3 :: (nat, unit) event]
   \<and> 0 < length (pending (exec nothing_throws [PageChange 3 :: (nat, unit) event]))
   \<and> 2 \<noteq> currentPage (cells (mount nothing_throws))
   \<and> 0 < length (pending (foldl (step nothing_throws) (mount nothing_throws)
           [PageChange 2, PageChange 3 :: (nat, unit) event]))
   \<and> posts (cells (step nothing_throws (mount nothing_throws)
         (Settle 0 (Resolved [5, 6] 3) :: (nat, unit) event))) = [5, 6]
   \<and> totalPages (cells (step nothing_throws (mount nothing_throws)
         (Settle 0 (Resolved [5, 6] 3) :: (nat, unit) event))) = 3
   \<and> status (cells (exec nothing_throws
         [PageChange 3, Settle 0 (Resolved [5, 6] 3) :: (nat, unit) event])) = Ready
   \<and> status (cells (foldl (step nothing_throws) (mount nothing_throws)
         [PageChange 2, PageChange 3, Settle 0 (Resolved [5, 6] 3) :: (nat, unit) event])) = Ready"
proof -
  have h1: "(0::nat) < length (pending (mount nothing_throws))"
    by (simp add: mount_def run_effect_eq)
  have h2: "\<not> list_ex is_failure [PageChange 3 :: (nat, unit) event]"
    by simp
  have h3: "0 < length (pending (exec nothing_throws [PageChange 3 :: (nat, unit) event]))"
    by (simp add: exec_def mount_def run_effect_eq BlogPage_init_def)
  have h4: "2 \<noteq> currentPage (cells (mount nothing_throws))"
    by (simp add: mount_def run_effect_eq BlogPage_init_def)
  have h5: "0 < length (pending (foldl (step nothing_throws) (mount nothing_throws)
           [PageChange 2, PageChange 3 :: (nat, unit) event]))"
    by (simp add: mount_def run_effect_eq BlogPage_init_def)
  from successful_resolution_on_page [where C = nothing_throws and pg = "mount nothing_throws"
      and k = 0 and newPosts = "[5, 6]" and tot = 3 and evs = "[PageChange 3 :: (nat, unit) event]"
      and j = 0 and p = 2 and i = 0 and s = BlogPage_init]
    h1 h2 h3 h4 h5
  show ?thesis unfolding append_Cons append_Nil by blast
qed

text \<open>
  C5, the claim as stated fails when requests overlap. Page \<open>2\<close> is requested while the
  request of the mount is pending; the request for page \<open>2\<close> is rejected, then the
  request of the mount resolves with post \<open>5\<close> of three pages. The continuation does not
  clear the message: the items and the page count are those of the response, and the
  status is \<open>Error\<close>.
\<close>

theorem stale_message_after_overlapped_success_counterexample:
  "posts (cells (exec nothing_throws
      [PageChange 2, Settle 1 (Rejected ()), Settle 0 (Resolved [5] 3)])) = [5]
   \<and> totalPages (cells (exec nothing_throws
      [PageChange 2, Settle 1 (Rejected ()), Settle 0 (Resolved [5] 3)])) = 3
   \<and> status (cells (exec nothing_throws
      [PageChange 2, Settle 1 (Rejected ()), Settle 0 (Resolved [5] 3)])) = Error
   \<and> status (cells (exec nothing_throws
      [PageChange 2, Settle 1 (Rejected ()), Settle 0 (Resolved [5] 3)])) \<noteq> Ready
   \<and> pending (exec nothing_throws [PageChange 2, Settle 1 (Rejected ()) :: (nat, unit) event])
       = [(1, 9)]"
  by (simp add: exec_def mount_def run_effect_eq commit_def BlogPage_render_def BlogPage_init_def
      run_setters_def status_def render_boundary_def boundary_children_def ErrorBoundary_init_def
      ErrorBoundary_render_def remove_nth_def fetch_error_message_def POSTS_PER_PAGE_def)



text \<open>
  C6. The mount, and every call of \<open>setCurrentPage\<close> with a page number other than the
  current one, leaves the page in \<open>Loading\<close> before any request has settled: the items
  and the message are cleared, the spinner is rendered, and the request added to the
  pending ones is for the current page and nine posts. The same holds of the synchronous
  part of \<open>fetchPosts\<close> from any cells.
\<close>

theorem fetch_starts_in_Loading:
  "posts (cells (mount C)) = [] \<and> error (cells (mount C)) = None
   \<and> status (cells (mount C)) = Loading \<and> shown (mount C) = Loader
   \<and> pending (mount C) = [(1, 9)]
   \<and> (p \<noteq> currentPage (cells pg) \<longrightarrow>
        currentPage (cells (step C pg (PageChange p))) = p
      \<and> posts (cells (step C pg (PageChange p))) = []
      \<and> error (cells (step C pg (PageChange p))) = None
      \<and> status (cells (step C pg (PageChange p))) = Loading
      \<and> shown (step C pg (PageChange p)) = Loader
      \<and> pending (step C pg (PageChange p)) = pending pg @ [(p, 9)])
   \<and> posts (run_setters s fetchPosts_reset) = []
   \<and> error (run_setters s fetchPosts_reset) = None
   \<and> status (run_setters s fetchPosts_reset) = Loading
   \<and> fetchPosts_request s = (currentPage s, 9)"
  by (simp add: mount_def run_effect_eq run_reset status_def BlogPage_init_def POSTS_PER_PAGE_def
      fetchPosts_request_def)

theorem fetch_starts_in_Loading_witness:
  "2 \<noteq> currentPage (cells (exec nothing_throws [Settle 0 (Resolved [5] 3 :: (nat, unit) outcome)]))
   \<and> status (cells (exec nothing_throws [Settle 0 (Resolved [5] 3 :: (nat, unit) outcome)])) = Ready
   \<and> status (cells (step nothing_throws
        (exec nothing_throws [Settle 0 (Resolved [5] 3 :: (nat, unit) outcome)])
        (PageChange 2 :: (nat, unit) event))) = Loading
   \<and> posts (cells (step nothing_throws
        (exec nothing_throws [Settle 0 (Resolved [5] 3 :: (nat, unit) outcome)])
        (PageChange 2 :: (nat, unit) event))) = []
   \<and> pending (step nothing_throws
        (exec nothing_throws [Settle 0 (Resolved [5] 3 :: (nat, unit) outcome)])
        (PageChange 2 :: (nat, unit) event)) =
       pending (exec nothing_throws [Settle 0 (Resolved [5] 3 :: (nat, unit) outcome)]) @ [(2, 9)]"
proof -
  have c: "cells (exec nothing_throws [Settle 0 (Resolved [5] 3 :: (nat, unit) outcome)]) =
      \<lparr>posts = [5], currentPage = 1, totalPages = 3, isLoading = False, error = None\<rparr>"
    by (simp add: mount_then_settle fetchPosts_Resolved BlogPage_init_def)
  have a: "2 \<noteq> currentPage (cells (exec nothing_throws [Settle 0 (Resolved [5] 3 :: (nat, unit) outcome)]))"
    by (simp add: c)
  have r: "status (cells (exec nothing_throws [Settle 0 (Resolved [5] 3 :: (nat, unit) outcome)])) = Ready"
    by (simp add: c status_def)
  from fetch_starts_in_Loading [of nothing_throws 2
      "exec nothing_throws [Settle 0 (Resolved [5] 3 :: (nat, unit) outcome)]"
      "BlogPage_init"] a r
  show ?thesis by blast
qed

section \<open>The fault boundary\<close>

text \<open>
  C1, as amended. When the card of one of the posts throws while a \<open>Ready\<close> page is
  rendered, the boundary trips and the whole of what it wraps is replaced by the one
  fallback panel: no card and no pager is rendered, whatever boundary instance was
  mounted before.
\<close>

theorem faulting_card_trips_whole_boundary:
  assumes "status s = Ready" and "p \<in> set (posts s)" and "BlogCard_throws C p"
  shows "BlogPage_render C s m =
           (Some \<lparr>hasError = True\<rparr>, FallbackPanel fallback_heading fallback_paragraph)
         \<and> rendered_nodes (snd (BlogPage_render C s m)) = []
         \<and> \<not> pager_rendered (snd (BlogPage_render C s m))"
proof -
  from assms(2) have "Card p \<in> set (boundary_children s)"
    by (auto simp: boundary_children_def)
  with assms(3) have "list_ex (node_throws C) (boundary_children s)"
    unfolding list_ex_iff by force
  then have "BlogPage_render C s m =
      (Some \<lparr>hasError = True\<rparr>, FallbackPanel fallback_heading fallback_paragraph)"
    using assms(1) by (simp add: render_Ready render_boundary_throws)
  then show ?thesis by (simp add: pager_rendered_def)
qed

theorem faulting_card_trips_whole_boundary_witness:
  "status \<lparr>posts = [1::nat, 2], currentPage = 1, totalPages = 3, isLoading = False, error = None\<rparr> = Ready
   \<and> (1::nat) \<in> set (posts \<lparr>posts = [1, 2], currentPage = 1, totalPages = 3, isLoading = False, error = None\<rparr>)
   \<and> BlogCard_throws card_1_throws 1
   \<and> BlogPage_render card_1_throws
        \<lparr>posts = [1, 2], currentPage = 1, totalPages = 3, isLoading = False, error = None\<rparr> None =
        (Some \<lparr>hasError = True\<rparr>, FallbackPanel fallback_heading fallback_paragraph)"
proof -
  have a: "status \<lparr>posts = [1::nat, 2], currentPage = 1, totalPages = 3, isLoading = False, error = None\<rparr> = Ready"
    by (simp add: status_def)
  have b: "(1::nat) \<in> set (posts \<lparr>posts = [1, 2], currentPage = 1, totalPages = 3, isLoading = False, error = None\<rparr>)"
    by simp
  have c: "BlogCard_throws card_1_throws 1" by simp
  from faulting_card_trips_whole_boundary [OF a b c, of None] a b c show ?thesis by simp
qed

text \<open>
  C1, the claim as stated fails. The first request settles with the posts \<open>1\<close> and \<open>2\<close>
  of three pages; the card of post \<open>1\<close> throws, the card of post \<open>2\<close> and the pager do
  not. There is one boundary around the grid and the pager, so the fallback panel is all
  that is rendered: neither the card of post \<open>2\<close> nor the pager.
\<close>

theorem one_faulting_card_blanks_all_counterexample:
  "status (cells (exec card_1_throws [Settle 0 (Resolved [1, 2] 3 :: (nat, unit) outcome)])) = Ready
   \<and> posts (cells (exec card_1_throws [Settle 0 (Resolved [1, 2] 3 :: (nat, unit) outcome)])) = [1, 2]
   \<and> totalPages (cells (exec card_1_throws [Settle 0 (Resolved [1, 2] 3 :: (nat, unit) outcome)])) = 3
   \<and> BlogCard_throws card_1_throws 1
   \<and> \<not> BlogCard_throws card_1_throws 2
   \<and> \<not> Pagination_throws card_1_throws 1 3
   \<and> shown (exec card_1_throws [Settle 0 (Resolved [1, 2] 3 :: (nat, unit) outcome)]) =
       FallbackPanel fallback_heading fallback_paragraph
   \<and> Card 2 \<notin> set (rendered_nodes
        (shown (exec card_1_throws [Settle 0 (Resolved [1, 2] 3 :: (nat, unit) outcome)])))
   \<and> \<not> pager_rendered
        (shown (exec card_1_throws [Settle 0 (Resolved [1, 2] 3 :: (nat, unit) outcome)]))"
  by (simp add: exec_def mount_def run_effect_eq commit_def BlogPage_render_def
      run_setters_def status_def render_boundary_def boundary_children_def ErrorBoundary_init_def
      ErrorBoundary_render_def remove_nth_def getDerivedStateFromError_def pager_rendered_def)

text \<open>
  After every event the boundary instance and the view of the page are those of a render
  of its cells: rendering again changes neither.
\<close>

lemma BlogPage_render_stable:
  "BlogPage_render C s m = (m', v) \<Longrightarrow> BlogPage_render C s m' = (m', v)"
  by (auto simp: BlogPage_render_def render_boundary_def ErrorBoundary_render_def
      getDerivedStateFromError_def split: if_splits option.splits)

lemma commit_settled:
  "BlogPage_render C (cells (commit C s m reqs)) (boundary (commit C s m reqs)) =
     (boundary (commit C s m reqs), shown (commit C s m reqs))"
  by (cases "BlogPage_render C s m") (simp add: commit_def BlogPage_render_stable)

lemma step_settled:
  assumes "BlogPage_render C (cells pg) (boundary pg) = (boundary pg, shown pg)"
  shows "BlogPage_render C (cells (step C pg e)) (boundary (step C pg e)) =
           (boundary (step C pg e), shown (step C pg e))"
  using assms by (cases e) (simp_all add: run_effect_def commit_settled)

lemma exec_settled:
  "BlogPage_render C (cells (exec C evs)) (boundary (exec C evs)) =
     (boundary (exec C evs), shown (exec C evs))"
proof (induction evs rule: rev_induct)
  case Nil
  show ?case by (simp add: exec_def mount_def run_effect_def commit_settled)
next
  case (snoc e evs)
  then show ?case by (simp add: exec_snoc step_settled)
qed

lemma pager_in_children:
  "list_ex is_pager (boundary_children s) = (totalPages s > 1)"
  by (simp add: boundary_children_def list_ex_iff) auto

lemma pager_rule:
  assumes "BlogPage_render C s m = (m, v)"
  shows "pager_rendered v \<longleftrightarrow>
           status s = Ready \<and> totalPages s > 1
           \<and> \<not> (case m of None \<Rightarrow> False | Some b \<Rightarrow> hasError b)"
  using assms
  by (auto simp: BlogPage_render_def render_boundary_def ErrorBoundary_render_def status_def
      getDerivedStateFromError_def pager_rendered_def pager_in_children ErrorBoundary_init_def
      split: if_splits option.splits)

text \<open>
  C3, as amended. In every state the page reaches from its mount, the pager is rendered
  if and only if the status is \<open>Ready\<close>, \<open>totalPages\<close> is greater than one and the
  boundary has not tripped.
\<close>

theorem pager_rendered_iff:
  "pager_rendered (shown (exec C evs)) \<longleftrightarrow>
     status (cells (exec C evs)) = Ready \<and> totalPages (cells (exec C evs)) > 1
     \<and> \<not> tripped (exec C evs)"
  using pager_rule [OF exec_settled] by (simp add: tripped_def)

text \<open>
  C3, the claim as stated fails where the boundary has tripped: the status is \<open>Ready\<close>
  and there are three pages, and the pager is not rendered.
\<close>

theorem pager_hidden_by_tripped_boundary_counterexample:
  "status (cells (exec card_1_throws [Settle 0 (Resolved [1, 2] 3 :: (nat, unit) outcome)])) = Ready
   \<and> totalPages (cells (exec card_1_throws [Settle 0 (Resolved [1, 2] 3 :: (nat, unit) outcome)])) > 1
   \<and> tripped (exec card_1_throws [Settle 0 (Resolved [1, 2] 3 :: (nat, unit) outcome)])
   \<and> \<not> pager_rendered
        (shown (exec card_1_throws [Settle 0 (Resolved [1, 2] 3 :: (nat, unit) outcome)]))"
  by (simp add: exec_def mount_def run_effect_eq commit_def BlogPage_render_def
      run_setters_def status_def render_boundary_def boundary_children_def ErrorBoundary_init_def
      ErrorBoundary_render_def remove_nth_def getDerivedStateFromError_def pager_rendered_def
      tripped_def)

lemma tripped_page_shows_fallback:
  assumes "BlogPage_render C (cells pg) (boundary pg) = (boundary pg, shown pg)" and "tripped pg"
  shows "shown pg = FallbackPanel fallback_heading fallback_paragraph"
  using assms
  by (auto simp: tripped_def BlogPage_render_def render_boundary_def ErrorBoundary_render_def
      split: if_splits option.splits)

lemma commit_keeps_tripped:
  "hasError b \<Longrightarrow>
   boundary (commit C s (Some b) reqs) = None \<or> boundary (commit C s (Some b) reqs) = Some b"
  by (simp add: commit_def BlogPage_render_def render_boundary_tripped)

lemma step_keeps_tripped:
  assumes "tripped pg"
  shows "boundary (step C pg e) = None \<or> boundary (step C pg e) = boundary pg"
proof -
  from assms obtain b where b: "boundary pg = Some b" "hasError b"
    by (auto simp: tripped_def split: option.splits)
  show ?thesis
  proof (cases e)
    case (PageChange p)
    then show ?thesis by (simp add: run_effect_eq)
  next
    case (Settle k r)
    then show ?thesis using b commit_keeps_tripped [of b C] by auto
  qed
qed

text \<open>
  C7. The only state a boundary is ever given after its initial one is the result of
  \<open>getDerivedStateFromError\<close>, which has the flag set. A boundary with the flag set
  keeps its state in every render pass, whatever its children are, and renders the fixed
  fallback panel (the heading and the paragraph) in place of them. On the mounted page, a
  tripped boundary shows the fallback, and after any event it is either the same tripped
  instance or unmounted.
\<close>

theorem tripped_boundary_stays_tripped:
  "hasError (getDerivedStateFromError e)
   \<and> (hasError b \<longrightarrow>
        render_boundary C b children = (b, FallbackPanel fallback_heading fallback_paragraph)
      \<and> boundary_renders C b passes = b
      \<and> hasError (boundary_renders C b passes))
   \<and> (tripped (exec C evs) \<longrightarrow>
        shown (exec C evs) = FallbackPanel fallback_heading fallback_paragraph
      \<and> (boundary (step C (exec C evs) ev) = None
         \<or> boundary (step C (exec C evs) ev) = boundary (exec C evs)))
   \<and> fallback_heading = ''Something went wrong''
   \<and> fallback_paragraph =
        ''An error occurred while rendering the blog posts. Please try again later.''"
  using tripped_page_shows_fallback [OF exec_settled, of C evs]
    step_keeps_tripped [of "exec C evs" C ev]
  by (simp add: getDerivedStateFromError_def render_boundary_tripped boundary_renders_tripped
      fallback_heading_def fallback_paragraph_def)

theorem tripped_boundary_stays_tripped_witness:
  "hasError \<lparr>hasError = True\<rparr>
   \<and> render_boundary card_1_throws \<lparr>hasError = True\<rparr> [Card 2, PagerCtl 1 3]
       = (\<lparr>hasError = True\<rparr>, FallbackPanel fallback_heading fallback_paragraph)
   \<and> boundary_renders card_1_throws \<lparr>hasError = True\<rparr> [[Card 2, PagerCtl 1 3], [EmptyNotice]]
       = \<lparr>hasError = True\<rparr>
   \<and> tripped (exec card_1_throws [Settle 0 (Resolved [1, 2] 3 :: (nat, unit) outcome)])
   \<and> shown (exec card_1_throws [Settle 0 (Resolved [1, 2] 3 :: (nat, unit) outcome)])
       = FallbackPanel fallback_heading fallback_paragraph"
proof -
  have t: "tripped (exec card_1_throws [Settle 0 (Resolved [1, 2] 3 :: (nat, unit) outcome)])"
    by (simp add: exec_def mount_def run_effect_eq commit_def BlogPage_render_def
      run_setters_def render_boundary_def boundary_children_def ErrorBoundary_init_def
      ErrorBoundary_render_def remove_nth_def getDerivedStateFromError_def tripped_def)
  have h: "hasError \<lparr>hasError = True\<rparr>" by simp
  from tripped_boundary_stays_tripped [of "()" "\<lparr>hasError = True\<rparr>" card_1_throws
      "[Card 2, PagerCtl 1 3]" "[[Card 2, PagerCtl 1 3], [EmptyNotice]]"
      "[Settle 0 (Resolved [1, 2] 3 :: (nat, unit) outcome)]" "PageChange 2"] t h
  show ?thesis by blast
qed

section \<open>The page count\<close>

lemma totalPages_step_other:
  "\<not> is_success e \<Longrightarrow> totalPages (cells (step C pg e)) = totalPages (cells pg)"
  by (cases e rule: is_success.cases)
     (simp_all add: run_effect_eq cells_commit run_setters_def)

lemma totalPages_step_success:
  "totalPages (cells (step C pg (Settle k (Resolved ps t)))) = t
   \<or> totalPages (cells (step C pg (Settle k (Resolved ps t)))) = totalPages (cells pg)"
  by (simp add: cells_commit run_setters_def)

lemma delivered_totals_append:
  "delivered_totals (xs @ ys) = delivered_totals xs @ delivered_totals ys"
  by (induction xs rule: delivered_totals.induct) simp_all

lemma delivered_totals_other: "\<not> is_success e \<Longrightarrow> delivered_totals [e] = []"
  by (cases e rule: is_success.cases) simp_all

lemma delivered_totals_none: "\<not> list_ex is_success evs \<Longrightarrow> delivered_totals evs = []"
  by (induction evs rule: delivered_totals.induct) simp_all

text \<open>The page count is the initial \<open>0\<close> or one of the counts the data source delivered.\<close>

lemma exec_totalPages_mem:
  "totalPages (cells (exec C evs)) \<in> insert 0 (set (delivered_totals evs))"
proof (induction evs rule: rev_induct)
  case Nil
  show ?case by (simp add: exec_def mount_def run_effect_eq BlogPage_init_def)
next
  case (snoc e evs)
  show ?case
  proof (cases "is_success e")
    case False
    with snoc show ?thesis
      by (simp add: exec_snoc totalPages_step_other delivered_totals_append delivered_totals_other)
  next
    case True
    then obtain k ps t where e: "e = Settle k (Resolved ps t)"
      by (cases e rule: is_success.cases) simp_all
    from totalPages_step_success [of C "exec C evs" k ps t] snoc show ?thesis
      unfolding e exec_snoc delivered_totals_append by auto
  qed
qed

text \<open>
  C8, as amended. \<open>totalPages\<close> is an integer; it is \<open>0\<close> at the mount and in every
  state reached without a successful settlement; no event other than a successful
  settlement changes it, and no setter call of the reset, of the failure path or of a
  page change writes it; a successful settlement stores the count of the response as it
  is. So it is non-negative in every state reached by a run in which every delivered
  count is non-negative.
\<close>

theorem totalPages_written_by_success_only:
  "totalPages (cells (mount C)) = 0
   \<and> (\<not> list_ex is_success evs \<longrightarrow> totalPages (cells (exec C evs)) = 0)
   \<and> (list_all (\<lambda>t. 0 \<le> t) (delivered_totals evs) \<longrightarrow> 0 \<le> totalPages (cells (exec C evs)))
   \<and> (\<not> is_success ev \<longrightarrow> totalPages (cells (step C pg ev)) = totalPages (cells pg))
   \<and> \<not> writes_cell TotalPagesCell (fetchPosts_reset :: 'p setter list)
   \<and> \<not> writes_cell TotalPagesCell (fetchPosts_settle (Rejected f) :: 'p setter list)
   \<and> \<not> writes_cell TotalPagesCell [SetCurrentPage p :: 'p setter]
   \<and> fetchPosts_settle (Resolved ps t) = [SetPosts ps, SetTotalPages t, SetIsLoading False]"
proof -
  have "totalPages (cells (exec C evs)) = 0" if "\<not> list_ex is_success evs"
    using exec_totalPages_mem [of C evs] delivered_totals_none [OF that] by simp
  moreover have "0 \<le> totalPages (cells (exec C evs))"
    if "list_all (\<lambda>t. 0 \<le> t) (delivered_totals evs)"
    using exec_totalPages_mem [of C evs] that by (auto simp: list_all_iff)
  ultimately show ?thesis
    by (simp add: totalPages_step_other writes_cell_def fetchPosts_reset_def
        mount_def run_effect_eq BlogPage_init_def)
qed

theorem totalPages_written_by_success_only_witness:
  "\<not> list_ex is_success [PageChange 2, Settle 0 (Rejected ()) :: (nat, unit) event]
   \<and> totalPages (cells (exec nothing_throws [PageChange 2, Settle 0 (Rejected ()) :: (nat, unit) event])) = 0
   \<and> list_all (\<lambda>t. 0 \<le> t)
        (delivered_totals [Settle 0 (Resolved [5] 3), PageChange 2, Settle 0 (Rejected ()) :: (nat, unit) event])
   \<and> 0 \<le> totalPages (cells (exec nothing_throws
        [Settle 0 (Resolved [5] 3), PageChange 2, Settle 0 (Rejected ()) :: (nat, unit) event]))
   \<and> \<not> is_success (PageChange 2 :: (nat, unit) event)
   \<and> totalPages (cells (step nothing_throws
        (exec nothing_throws [Settle 0 (Resolved [5] 3 :: (nat, unit) outcome)])
        (PageChange 2 :: (nat, unit) event))) =
       totalPages (cells (exec nothing_throws [Settle 0 (Resolved [5] 3 :: (nat, unit) outcome)]))"
proof -
  have a: "\<not> list_ex is_success [PageChange 2, Settle 0 (Rejected ()) :: (nat, unit) event]"
    by simp
  have b: "list_all (\<lambda>t. 0 \<le> t)
        (delivered_totals [Settle 0 (Resolved [5] 3), PageChange 2, Settle 0 (Rejected ()) :: (nat, unit) event])"
    by simp
  have c: "\<not> is_success (PageChange 2 :: (nat, unit) event)"
    by simp
  from totalPages_written_by_success_only [of nothing_throws
      "[PageChange 2, Settle 0 (Rejected ()) :: (nat, unit) event]" "PageChange 2 :: (nat, unit) event"
      "exec nothing_throws [Settle 0 (Resolved [5] 3 :: (nat, unit) outcome)]" "()" 1 "[]" 0]
    totalPages_written_by_success_only [of nothing_throws
      "[Settle 0 (Resolved [5] 3), PageChange 2, Settle 0 (Rejected ()) :: (nat, unit) event]"
      "PageChange 2 :: (nat, unit) event"
      "exec nothing_throws [Settle 0 (Resolved [5] 3 :: (nat, unit) outcome)]" "()" 1 "[]" 0]
    a b c
  show ?thesis by blast
qed

text \<open>
  C8, the claim as stated fails in its first part: the page does not check the count it
  is given. When the first request settles with a response whose count is \<open>- 1\<close>, the
  page is \<open>Ready\<close> with \<open>totalPages = - 1\<close>.
\<close>

theorem negative_total_is_stored_counterexample:
  "totalPages (cells (exec nothing_throws [Settle 0 (Resolved [] (- 1) :: (nat, unit) outcome)])) = - 1
   \<and> totalPages (cells (exec nothing_throws [Settle 0 (Resolved [] (- 1) :: (nat, unit) outcome)])) < 0
   \<and> status (cells (exec nothing_throws [Settle 0 (Resolved [] (- 1) :: (nat, unit) outcome)])) = Ready"
  by (simp add: exec_def mount_def run_effect_eq cells_commit run_setters_def status_def
      BlogPage_init_def)

end
